theory Spec2Isabelle
  imports Main "HOL-Library.Sublist"
begin

section \<open>Python string operations used by Dockerfile.py\<close>

text \<open>
  Python strings are modelled as \<open>string\<close>; a character is one \<open>char\<close> (code points
  below 256).  \<open>isspace\<close> is \<open>str.isspace\<close> on these code points: the characters that
  \<open>str.strip()\<close> and \<open>str.split()\<close> treat as whitespace.
\<close>

definition isspace :: "char \<Rightarrow> bool" where
  "isspace c =
     (let n = (of_char c :: nat)
      in (9 \<le> n \<and> n \<le> 13) \<or> (28 \<le> n \<and> n \<le> 32) \<or> n = 133 \<or> n = 160)"

text \<open>\<open>s.strip()\<close>: leading and trailing whitespace removed.\<close>

definition strip :: "string \<Rightarrow> string" where
  "strip s = rev (dropWhile isspace (rev (dropWhile isspace s)))"

text \<open>
  \<open>s.replace(old, new)\<close>: every non-overlapping occurrence of \<open>old\<close>, found from the
  left, is replaced by \<open>new\<close>.  With an empty \<open>old\<close> Python puts \<open>new\<close> before every
  character and at the end.
\<close>

function replace :: "string \<Rightarrow> string \<Rightarrow> string \<Rightarrow> string" where
  "replace old new s =
     (if old = [] then new @ concat (map (\<lambda>c. c # new) s)
      else if s = [] then []
      else if prefix old s then new @ replace old new (drop (length old) s)
      else hd s # replace old new (tl s))"
  by pat_completeness auto
termination
  by (relation "measure (\<lambda>(old, new, s). length s)") auto

declare replace.simps [simp del]

text \<open>\<open>s.split()\<close>: the maximal runs of non-whitespace characters, in order.\<close>

fun split_from :: "string \<Rightarrow> string \<Rightarrow> string list" where
  "split_from cur [] = (if cur = [] then [] else [cur])"
| "split_from cur (c # cs) =
     (if isspace c then (if cur = [] then split_from [] cs else cur # split_from [] cs)
      else split_from (cur @ [c]) cs)"

definition split :: "string \<Rightarrow> string list" where
  "split s = split_from [] s"

text \<open>The newline that \<open>print\<close> appends.\<close>

definition nl :: string where
  "nl = [CHR 0x0A]"

section \<open>Module-level tables\<close>

text \<open>A dict literal is an association list in insertion order.\<close>

definition base_vars :: "(string \<times> string) list" where
  "base_vars =
     [(''name'', ''pihole/pihole''),
      (''maintainer'', ''adam@diginc.us''),
      (''s6_version'', ''v1.22.1.0'')]"

definition os_base_vars :: "(string \<times> (string \<times> string) list) list" where
  "os_base_vars =
     [(''debian'',
        [(''php_env_config'', ''/etc/lighttpd/conf-enabled/15-fastcgi-php.conf''),
         (''php_error_log'', ''/var/log/lighttpd/error.log'')]),
      (''alpine'',
        [(''php_env_config'', ''/etc/php5/fpm.d/envs.conf''),
         (''php_error_log'', ''/var/log/nginx/error.log'')])]"

text \<open>One entry of \<open>images[os]\<close>: the dict with keys \<open>base\<close>, \<open>arch\<close>, \<open>s6arch\<close>.\<close>

record image =
  base :: string
  arch :: string
  s6arch :: string

definition image_items :: "image \<Rightarrow> (string \<times> string) list" where
  "image_items im = [(''base'', base im), (''arch'', arch im), (''s6arch'', s6arch im)]"

definition images :: "(string \<times> image list) list" where
  "images =
     [(''debian'',
        [\<lparr>base = ''pihole/debian-base:latest'', arch = ''amd64'', s6arch = ''amd64''\<rparr>,
         \<lparr>base = ''multiarch/debian-debootstrap:armel-stretch-slim'', arch = ''armel'',
          s6arch = ''arm''\<rparr>,
         \<lparr>base = ''multiarch/debian-debootstrap:armhf-stretch-slim'', arch = ''armhf'',
          s6arch = ''arm''\<rparr>,
         \<lparr>base = ''multiarch/debian-debootstrap:arm64-stretch-slim'', arch = ''arm64'',
          s6arch = ''aarch64''\<rparr>]),
      (''alpine'',
        [\<lparr>base = ''alpine:edge'', arch = ''amd64'', s6arch = ''amd64''\<rparr>,
         \<lparr>base = ''multiarch/alpine:armhf-edge'', arch = ''arm'', s6arch = ''arm''\<rparr>,
         \<lparr>base = ''multiarch/alpine:arm64-edge'', arch = ''arm64'', s6arch = ''aarch64''\<rparr>])]"

text \<open>
  \<open>dict(items)\<close>: a later item with a key already present replaces the value and keeps
  the key's place; a new key goes to the end.
\<close>

fun dict_set :: "string \<Rightarrow> string \<Rightarrow> (string \<times> string) list \<Rightarrow> (string \<times> string) list" where
  "dict_set k v [] = [(k, v)]"
| "dict_set k v (p # ps) = (if fst p = k then (k, v) # ps else p # dict_set k v ps)"

definition dict :: "(string \<times> string) list \<Rightarrow> (string \<times> string) list" where
  "dict items = foldl (\<lambda>d kv. dict_set (fst kv) (snd kv) d) [] items"

section \<open>The version string\<close>

text \<open>
  Lines 46 to 50: \<open>raw_version = v.read().strip()\<close> and
  \<open>__version__ = raw_version.replace('release/', 'release-')\<close>, on the content of the
  VERSION file.
\<close>

definition version_of :: "string \<Rightarrow> string" where
  "version_of content = replace ''release/'' ''release-'' (strip content)"

section \<open>Command line, environment and program state\<close>

text \<open>
  The dict returned by \<open>docopt(__doc__)\<close>, one field per option.  \<open>--os\<close> and \<open>--arch\<close>
  are lists (the options repeat), \<open>--hub_tag\<close> is a string or Python's \<open>None\<close>, the
  others are flags.
\<close>

record args =
  opt_os :: "string list"
  opt_hub_tag :: "string option"
  opt_arch :: "string list"
  opt_v :: bool
  opt_t :: bool
  no_build :: bool
  no_generate :: bool
  no_cache :: bool

text \<open>
  The dict for a command line without options.  \<open>--os\<close> and \<open>--arch\<close> take the defaults
  of the usage text, split at whitespace.  The description of \<open>--hub_tag\<close> follows the
  option after a single space, so docopt reads no default for it and the value is
  \<open>None\<close>.
\<close>

definition default_args :: args where
  "default_args =
     \<lparr>opt_os = [''alpine'', ''debian''], opt_hub_tag = None,
      opt_arch = [''amd64'', ''armel'', ''armhf'', ''arm64''],
      opt_v = False, opt_t = False, no_build = False, no_generate = False,
      no_cache = False\<rparr>"

text \<open>Truth value of \<open>args['--hub_tag']\<close> in \<open>if args['--hub_tag']:\<close>.\<close>

definition truthy :: "string option \<Rightarrow> bool" where
  "truthy v = (case v of None \<Rightarrow> False | Some t \<Rightarrow> t \<noteq> [])"

text \<open>
  What the program reads from outside: the content of the VERSION file and of
  Dockerfile.template (\<open>None\<close> when the file does not exist), the files of the working
  directory before the run, jinja2's rendering of a template on the dict \<open>pihole\<close>, the
  text that \<open>print(args)\<close> shows, and the processes.  \<open>popen e i argv\<close> is the output
  lines and the return code of the \<open>i\<close>-th process started, with argument vector \<open>argv\<close>;
  \<open>still_running e i\<close> tells whether that process is still running when
  \<open>build_result.poll()\<close> is first called.  A process is taken to start and to exit, and a
  rendering to return.
\<close>

record env =
  version_file :: "string option"
  template_file :: "string option"
  initial_files :: "string \<rightharpoonup> string"
  render :: "string \<Rightarrow> (string \<times> string) list \<Rightarrow> string"
  show_args :: "args \<Rightarrow> string"
  popen :: "nat \<Rightarrow> string list \<Rightarrow> string list \<times> int"
  still_running :: "nat \<Rightarrow> bool"

datatype error =
    FileNotFoundError string
  | TemplateNotFound string
  | KeyError string
  | OSError string
  | TemplateSyntaxError
  | TemplateRuntimeError

text \<open>
  What reaches the console: text written by \<open>print\<close>, the interpreter's traceback of
  an uncaught exception, and the usage text that docopt shows when it rejects the
  command line.
\<close>

datatype console_item = Stdout string | Traceback error | UsageMessage

text \<open>
  The state the program works on: the configuration table \<open>images\<close>, the files of the
  working directory, the writes made so far (name and content, in order), the console,
  and the commands started so far.
\<close>

record state =
  st_images :: "(string \<times> image list) list"
  files :: "string \<rightharpoonup> string"
  written :: "(string \<times> string) list"
  console :: "console_item list"
  invoked :: "string list"

text \<open>A statement either completes or raises, in both cases in some state.\<close>

datatype result = Done state | Raised error state

definition print :: "string \<Rightarrow> state \<Rightarrow> state" where
  "print text s = s\<lparr>console := console s @ [Stdout (text @ nl)]\<rparr>"

text \<open>\<open>print(line, end='')\<close>.\<close>

definition print_raw :: "string \<Rightarrow> state \<Rightarrow> state" where
  "print_raw text s = s\<lparr>console := console s @ [Stdout text]\<rparr>"

text \<open>\<open>with open(name, 'w') as f: f.write(content)\<close>.\<close>

definition write_file :: "string \<Rightarrow> string \<Rightarrow> state \<Rightarrow> state" where
  "write_file name content s =
     s\<lparr>files := (files s)(name \<mapsto> content), written := written s @ [(name, content)]\<rparr>"

section \<open>Generating the Dockerfiles\<close>

text \<open>Line 118 and line 148: \<open>'Dockerfile_{}'.format(arch)\<close>.\<close>

definition dockerfile_name :: "string \<Rightarrow> string" where
  "dockerfile_name a = ''Dockerfile_'' @ a"

text \<open>Lines 105 to 113: the dict handed to the template as \<open>pihole\<close>.\<close>

definition merged_data ::
  "string \<Rightarrow> string \<Rightarrow> (string \<times> string) list \<Rightarrow> image \<Rightarrow> (string \<times> string) list" where
  "merged_data ver os osvars im =
     (let s6 = (if s6arch im \<noteq> [] then s6arch im else arch im)
      in dict ([(''version'', ver)] @ [(''os'', os)] @ base_vars @ osvars @ image_items im
               @ [(''s6arch'', s6)]))"

text \<open>The body of the inner loop, lines 101 to 120.\<close>

definition generate_image :: "env \<Rightarrow> string \<Rightarrow> args \<Rightarrow> string \<Rightarrow> image \<Rightarrow> state \<Rightarrow> result" where
  "generate_image e ver a os im s =
     (if os \<notin> set (opt_os a) then Done s
      else if arch im \<notin> set (opt_arch a) then Done s
      else case map_of os_base_vars os of
             None \<Rightarrow> Raised (KeyError os) s
           | Some osvars \<Rightarrow>
               (case template_file e of
                  None \<Rightarrow> Raised (TemplateNotFound ''Dockerfile.template'') s
                | Some tpl \<Rightarrow>
                    Done (write_file (dockerfile_name (arch im))
                            (render e tpl (merged_data ver os osvars im)) s)))"

text \<open>\<open>for image in archs\<close>.\<close>

fun generate_archs :: "env \<Rightarrow> string \<Rightarrow> args \<Rightarrow> string \<Rightarrow> image list \<Rightarrow> state \<Rightarrow> result" where
  "generate_archs e ver a os [] s = Done s"
| "generate_archs e ver a os (im # ims) s =
     (case generate_image e ver a os im s of
        Done s' \<Rightarrow> generate_archs e ver a os ims s'
      | Raised x s' \<Rightarrow> Raised x s')"

text \<open>\<open>for os, archs in images.items()\<close>.\<close>

fun generate_items ::
  "env \<Rightarrow> string \<Rightarrow> args \<Rightarrow> (string \<times> image list) list \<Rightarrow> state \<Rightarrow> result" where
  "generate_items e ver a [] s = Done s"
| "generate_items e ver a ((os, archs) # rest) s =
     (case generate_archs e ver a os archs s of
        Done s' \<Rightarrow> generate_items e ver a rest s'
      | Raised x s' \<Rightarrow> Raised x s')"

definition generate_dockerfiles :: "env \<Rightarrow> string \<Rightarrow> args \<Rightarrow> state \<Rightarrow> result" where
  "generate_dockerfiles e ver a s =
     (if no_generate a then Done (print '' ::: Skipping Dockerfile generation'' s)
      else generate_items e ver a (st_images s) s)"

section \<open>Building and tagging\<close>

text \<open>
  Lines 133 to 144.  The process is started on \<open>command.split()\<close>.  With \<open>-v\<close> the loop
  \<open>while build_result.poll() is None\<close> prints the output line by line up to its end when
  the process is still running at the first poll, and prints nothing when it has
  already exited.  \<open>"     ::: Error running".format(command)\<close> has no
  placeholder, so the command is not part of the message, and \<open>build_result.stderr\<close> is
  \<open>None\<close> because stderr goes to stdout.
\<close>

definition run_and_stream_command_output :: "env \<Rightarrow> string \<Rightarrow> args \<Rightarrow> state \<Rightarrow> state" where
  "run_and_stream_command_output e command a s =
     (let s1 = print (''Running '' @ command) s;
          build_result = popen e (length (invoked s1)) (split command);
          s2 = s1\<lparr>invoked := invoked s1 @ [command]\<rparr>;
          s3 = (if opt_v a \<and> still_running e (length (invoked s1))
                then foldl (\<lambda>st line. print_raw line st) s2 (fst build_result)
                else s2)
      in if snd build_result \<noteq> 0
         then print ''None'' (print ''     ::: Error running'' s3)
         else s3)"

definition repo_tag :: "string \<Rightarrow> string \<Rightarrow> string \<Rightarrow> string \<Rightarrow> string" where
  "repo_tag docker_repo ver os a = docker_repo @ '':'' @ ver @ ''_'' @ os @ ''_'' @ a"

definition time_prefix :: "args \<Rightarrow> string" where
  "time_prefix a = (if opt_t a then ''time '' else [])"

definition build_command :: "string \<Rightarrow> string \<Rightarrow> args \<Rightarrow> string \<Rightarrow> string \<Rightarrow> string" where
  "build_command ver docker_repo a os ar =
     (let tag = repo_tag docker_repo ver os ar;
          cached_image = ''pihole'' @ ''/'' @ tag;
          no_cache_opt = (if no_cache a then ''--no-cache'' else [])
      in time_prefix a @ ''docker build '' @ no_cache_opt @ '' --pull --cache-from=''
         @ [CHR 0x22] @ cached_image @ '','' @ tag @ [CHR 0x22] @ '' -f ''
         @ dockerfile_name ar @ '' -t '' @ tag @ '' .'')"

definition hub_tag_command :: "string \<Rightarrow> string \<Rightarrow> args \<Rightarrow> string \<Rightarrow> string \<Rightarrow> string" where
  "hub_tag_command ver docker_repo a os ar =
     time_prefix a @ ''docker tag '' @ repo_tag docker_repo ver os ar @ '' ''
     @ (case opt_hub_tag a of None \<Rightarrow> ''None'' | Some t \<Rightarrow> t)"

text \<open>Lines 147 to 168.\<close>

definition build :: "env \<Rightarrow> string \<Rightarrow> string \<Rightarrow> string \<Rightarrow> string \<Rightarrow> args \<Rightarrow> state \<Rightarrow> state" where
  "build e ver docker_repo os ar a s =
     (let tag = repo_tag docker_repo ver os ar;
          cmd = build_command ver docker_repo a os ar;
          s1 = print ('' ::: Building '' @ tag) s;
          s2 = print ('' ::: Building '' @ dockerfile_name ar @ '' into '' @ tag) s1;
          s3 = run_and_stream_command_output e cmd a s2;
          s4 = (if opt_v a then print (cmd @ '' '' @ nl) s3 else s3)
      in if truthy (opt_hub_tag a)
         then run_and_stream_command_output e (hub_tag_command ver docker_repo a os ar) a
                (print ('' ::: Tagging '' @ tag @ '' into ''
                        @ (case opt_hub_tag a of None \<Rightarrow> ''None'' | Some t \<Rightarrow> t)) s4)
         else s4)"

text \<open>\<open>for arch in args['--arch']\<close> and \<open>for os in args['--os']\<close>.\<close>

fun build_archs :: "env \<Rightarrow> string \<Rightarrow> args \<Rightarrow> string \<Rightarrow> string list \<Rightarrow> state \<Rightarrow> state" where
  "build_archs e ver a os [] s = s"
| "build_archs e ver a os (ar # ars) s =
     build_archs e ver a os ars (build e ver ''pihole'' os ar a s)"

fun build_oses :: "env \<Rightarrow> string \<Rightarrow> args \<Rightarrow> string list \<Rightarrow> state \<Rightarrow> state" where
  "build_oses e ver a [] s = s"
| "build_oses e ver a (os # oses) s =
     build_oses e ver a oses (build_archs e ver a os (opt_arch a) s)"

definition build_dockerfiles :: "env \<Rightarrow> string \<Rightarrow> args \<Rightarrow> state \<Rightarrow> state" where
  "build_dockerfiles e ver a s =
     (if no_build a then print '' ::: Skipping Dockerfile building'' s
      else build_oses e ver a (opt_os a) s)"

section \<open>The program\<close>

text \<open>The \<open>__main__\<close> block, lines 171 to 177, on the parsed command line.\<close>

definition main :: "env \<Rightarrow> string \<Rightarrow> args \<Rightarrow> state \<Rightarrow> result" where
  "main e ver a s =
     (let s1 = (if opt_v a then print (show_args e a) s else s)
      in case generate_dockerfiles e ver a s1 of
           Done s2 \<Rightarrow> Done (build_dockerfiles e ver a s2)
         | Raised x s2 \<Rightarrow> Raised x s2)"

text \<open>
  The whole script: the module level reads VERSION (line 48 raises when the file is
  missing), binds \<open>images\<close>, and runs the \<open>__main__\<close> block.  The result is the exit
  status of the interpreter and the final state: an uncaught exception is reported by a
  traceback and gives status 1, the end of the script gives status 0.
\<close>

definition boot :: "env \<Rightarrow> state" where
  "boot e = \<lparr>st_images = [], files = initial_files e, written = [], console = [],
             invoked = []\<rparr>"

definition uncaught :: "error \<Rightarrow> state \<Rightarrow> int \<times> state" where
  "uncaught x s = (1, s\<lparr>console := console s @ [Traceback x]\<rparr>)"

definition program :: "env \<Rightarrow> args \<Rightarrow> int \<times> state" where
  "program e a =
     (case version_file e of
        None \<Rightarrow> uncaught (FileNotFoundError ''VERSION'') (boot e)
      | Some content \<Rightarrow>
          (case main e (version_of content) a ((boot e)\<lparr>st_images := images\<rparr>) of
             Done s \<Rightarrow> (0, s)
           | Raised x s \<Rightarrow> uncaught x s))"

section \<open>The program with the library calls that can raise\<close>













section \<open>Notions used to state the properties\<close>

definition state_of :: "result \<Rightarrow> state" where
  "state_of r = (case r of Done s \<Rightarrow> s | Raised x s \<Rightarrow> s)"

text \<open>
  The (OS, record) pairs of a configuration table restricted to the \<open>--os\<close> and
  \<open>--arch\<close> selection, in the order of the table.
\<close>

definition selected :: "args \<Rightarrow> (string \<times> image list) list \<Rightarrow> (string \<times> image) list" where
  "selected a tbl =
     concat (map (\<lambda>entry. map (Pair (fst entry))
                    (filter (\<lambda>im. fst entry \<in> set (opt_os a) \<and> arch im \<in> set (opt_arch a))
                       (snd entry))) tbl)"

text \<open>
  The file name and the content that the generation step writes for a pair whose OS is
  a key of \<open>os_base_vars\<close> (for any other OS the step raises \<open>KeyError\<close>).
\<close>

definition dockerfile_of :: "env \<Rightarrow> string \<Rightarrow> string \<Rightarrow> string \<times> image \<Rightarrow> string \<times> string" where
  "dockerfile_of e ver tpl p =
     (dockerfile_name (arch (snd p)),
      render e tpl
        (merged_data ver (fst p)
           (case map_of os_base_vars (fst p) of None \<Rightarrow> [] | Some osvars \<Rightarrow> osvars) (snd p)))"

text \<open>A sequence of file writes, in order.\<close>

definition write_all :: "(string \<times> string) list \<Rightarrow> state \<Rightarrow> state" where
  "write_all ws s = foldl (\<lambda>st w. write_file (fst w) (snd w) st) s ws"


definition is_tag_command :: "string \<Rightarrow> bool" where
  "is_tag_command c = (prefix ''docker tag '' c \<or> prefix ''time docker tag '' c)"

text \<open>The commands that one call of \<open>build\<close> starts, in order.\<close>

definition commands_of :: "string \<Rightarrow> args \<Rightarrow> string \<times> string \<Rightarrow> string list" where
  "commands_of ver a p =
     build_command ver ''pihole'' a (fst p) (snd p)
     # (if truthy (opt_hub_tag a) then [hub_tag_command ver ''pihole'' a (fst p) (snd p)] else [])"

text \<open>The console line that reports a failed command.\<close>

definition error_line :: console_item where
  "error_line = Stdout (''     ::: Error running'' @ nl)"

text \<open>The return code of the \<open>i\<close>-th command of a state's command log.\<close>

definition returncode :: "env \<Rightarrow> state \<Rightarrow> nat \<Rightarrow> int" where
  "returncode e s i = snd (popen e i (split (invoked s ! i)))"

text \<open>
  The state in which \<open>generate_dockerfiles\<close> is called: \<open>images\<close> bound, and the
  command line printed when \<open>-v\<close> is given.
\<close>

definition start :: "env \<Rightarrow> args \<Rightarrow> state" where
  "start e a = (let s = (boot e)\<lparr>st_images := images\<rparr>
                in if opt_v a then print (show_args e a) s else s)"

text \<open>The runs that end in an uncaught exception.\<close>

definition fails :: "env \<Rightarrow> args \<Rightarrow> bool" where
  "fails e a = (version_file e = None \<or>
     (\<not> no_generate a \<and> template_file e = None \<and> selected a images \<noteq> []))"

text \<open>The file writes of a run, in order.\<close>

definition generated :: "env \<Rightarrow> args \<Rightarrow> (string \<times> string) list" where
  "generated e a =
     (case version_file e of
        None \<Rightarrow> []
      | Some content \<Rightarrow>
          if no_generate a then []
          else case template_file e of
                 None \<Rightarrow> []
               | Some tpl \<Rightarrow> map (dockerfile_of e (version_of content) tpl) (selected a images))"

text \<open>Every command of the log that returned a nonzero code has its report on the console.\<close>

definition reported :: "env \<Rightarrow> state \<Rightarrow> bool" where
  "reported e s = (\<forall>i<length (invoked s). returncode e s i \<noteq> 0 \<longrightarrow> error_line \<in> set (console s))"




section \<open>A concrete environment\<close>

text \<open>
  A VERSION file holding \<open>release/v4.0\<close>, a small template, a renderer that appends the
  dict to the template, and processes of which the second one started fails.
\<close>

definition show_dict :: "(string \<times> string) list \<Rightarrow> string" where
  "show_dict d = concat (map (\<lambda>kv. fst kv @ ''='' @ snd kv @ '';'') d)"

definition raw_version0 :: string where
  "raw_version0 = ''release/v4.0'' @ nl"

definition env0 :: env where
  "env0 =
     \<lparr>version_file = Some raw_version0, template_file = Some ''FROM '',
      initial_files = Map.empty, render = (\<lambda>tpl d. tpl @ show_dict d),
      show_args = (\<lambda>a. ''args''),
      popen = (\<lambda>i argv. ([''out'' @ nl], if i = 1 then 2 else 0)),
      still_running = (\<lambda>i. True)\<rparr>"

text \<open>A command line that selects one pair and gives a hub tag.\<close>

definition tagged_args :: args where
  "tagged_args = default_args\<lparr>opt_os := [''alpine''], opt_arch := [''arm64''],
     opt_hub_tag := Some ''me/pihole:dev''\<rparr>"

text \<open>
  A second environment with the same version string, template and renderer as the
  first, and with other files, other command line text and other processes.
\<close>

definition env1 :: env where
  "env1 =
     \<lparr>version_file = Some ''  release/v4.0'', template_file = Some ''FROM '',
      initial_files = [''Dockerfile_amd64'' \<mapsto> ''old''], render = (\<lambda>tpl d. tpl @ show_dict d),
      show_args = (\<lambda>a. ''{}''), popen = (\<lambda>i argv. ([], 1)),
      still_running = (\<lambda>i. False)\<rparr>"






section \<open>Facts about the string operations\<close>

lemma replace_release_Nil: "replace ''release/'' ''release-'' [] = []"
  by (subst replace.simps) simp

lemma replace_release_match:
  "prefix ''release/'' s \<Longrightarrow>
   replace ''release/'' ''release-'' s =
     ''release-'' @ replace ''release/'' ''release-'' (drop (length ''release/'') s)"
  by (subst replace.simps) auto

lemma replace_release_skip:
  assumes "\<not> prefix ''release/'' (c # cs)"
  shows "replace ''release/'' ''release-'' (c # cs) = c # replace ''release/'' ''release-'' cs"
proof -
  have eq: "replace ''release/'' ''release-'' (c # cs) =
      (if prefix ''release/'' (c # cs)
       then ''release-'' @ replace ''release/'' ''release-'' (drop (length ''release/'') (c # cs))
       else c # replace ''release/'' ''release-'' cs)"
    by (subst replace.simps) simp
  show ?thesis by (simp only: eq assms if_False)
qed

lemma replace_prefix_back:
  assumes "CHR ''r'' \<notin> set w"
  shows "prefix w (replace ''release/'' ''release-'' s) \<Longrightarrow> prefix w s"
  using assms
proof (induction s arbitrary: w rule: length_induct)
  case (1 s)
  show ?case
  proof (cases w)
    case Nil then show ?thesis by simp
  next
    case (Cons a w')
    show ?thesis
    proof (cases s)
      case Nil
      with 1(2) Cons show ?thesis by (simp add: replace_release_Nil)
    next
      case s: (Cons c cs)
      show ?thesis
      proof (cases "prefix ''release/'' s")
        case True
        with 1(2) Cons have "a = CHR ''r''" by (simp add: replace_release_match)
        with 1(3) Cons show ?thesis by simp
      next
        case False
        with 1(2) Cons s have a: "a = c" and p: "prefix w' (replace ''release/'' ''release-'' cs)"
          by (simp_all add: replace_release_skip)
        from 1(3) Cons have "CHR ''r'' \<notin> set w'" by simp
        with 1(1) p s have "prefix w' cs" by simp
        with a Cons s show ?thesis by simp
      qed
    qed
  qed
qed

lemma replace_no_release_slash:
  "\<not> sublist ''release/'' (replace ''release/'' ''release-'' s)"
proof (induction s rule: length_induct)
  case (1 s)
  show ?case
  proof (cases s)
    case Nil
    then show ?thesis by (simp add: replace_release_Nil)
  next
    case s: (Cons c cs)
    show ?thesis
    proof (cases "prefix ''release/'' s")
      case True
      have "length (drop (length ''release/'') s) < length s" using s by simp
      with 1 have "\<not> sublist ''release/'' (replace ''release/'' ''release-'' (drop (length ''release/'') s))"
        by blast
      then show ?thesis
        unfolding replace_release_match [OF True] by (simp add: sublist_Cons_right)
    next
      case False
      from 1 s have ih: "\<not> sublist ''release/'' (replace ''release/'' ''release-'' cs)" by simp
      have "\<not> prefix ''release/'' (c # replace ''release/'' ''release-'' cs)"
      proof
        assume p: "prefix ''release/'' (c # replace ''release/'' ''release-'' cs)"
        from p have c: "c = CHR ''r''" by simp
        from p have "prefix ''elease/'' (replace ''release/'' ''release-'' cs)"
          by auto
        then have "prefix ''elease/'' cs" by (rule replace_prefix_back [rotated]) simp
        with c s False show False by simp
      qed
      with ih False s show ?thesis by (simp add: replace_release_skip sublist_Cons_right)
    qed
  qed
qed

section \<open>Facts about the generation step\<close>

lemma write_all_Nil: "write_all [] s = s"
  by (simp add: write_all_def)

lemma write_all_Cons: "write_all (w # ws) s = write_all ws (write_file (fst w) (snd w) s)"
  by (simp add: write_all_def)

lemma write_all_append: "write_all (xs @ ys) s = write_all ys (write_all xs s)"
  by (simp add: write_all_def)

lemma write_all_written: "written (write_all ws s) = written s @ ws"
  by (induction ws arbitrary: s) (simp_all add: write_all_Nil write_all_Cons write_file_def)


lemma write_all_invoked: "invoked (write_all ws s) = invoked s"
  by (induction ws arbitrary: s) (simp_all add: write_all_Nil write_all_Cons write_file_def)

lemma write_all_st_images: "st_images (write_all ws s) = st_images s"
  by (induction ws arbitrary: s) (simp_all add: write_all_Nil write_all_Cons write_file_def)

lemma write_all_files_other:
  "n \<notin> fst ` set ws \<Longrightarrow> files (write_all ws s) n = files s n"
  by (induction ws arbitrary: s) (simp_all add: write_all_Nil write_all_Cons write_file_def)

lemma write_all_files_last:
  "n \<notin> fst ` set ys \<Longrightarrow> files (write_all (xs @ (n, c) # ys) s) n = Some c"
  by (simp add: write_all_append write_all_Cons write_all_files_other write_file_def)

lemma write_all_files: "files (write_all ws s) = files s ++ map_of (rev ws)"
proof (induction ws arbitrary: s)
  case Nil
  show ?case by (simp add: write_all_Nil)
next
  case (Cons w ws)
  show ?case
    by (cases w) (simp add: write_all_Cons Cons write_file_def map_add_upd_left fun_eq_iff map_add_def split: option.splits)
qed

lemma generate_archs_closed:
  assumes "template_file e = Some tpl" and "map_of os_base_vars os = Some osvars"
  shows "generate_archs e ver a os ims s =
         Done (write_all (map (dockerfile_of e ver tpl)
                 (map (Pair os) (filter (\<lambda>im. os \<in> set (opt_os a) \<and> arch im \<in> set (opt_arch a)) ims))) s)"
  using assms
  by (induction ims arbitrary: s)
     (simp_all add: generate_image_def write_all_Nil write_all_Cons dockerfile_of_def)

lemma generate_items_closed:
  assumes "template_file e = Some tpl" and "fst ` set tbl \<subseteq> dom (map_of os_base_vars)"
  shows "generate_items e ver a tbl s = Done (write_all (map (dockerfile_of e ver tpl) (selected a tbl)) s)"
  using assms(2)
proof (induction tbl arbitrary: s)
  case Nil
  show ?case by (simp add: selected_def write_all_Nil)
next
  case (Cons entry tbl)
  obtain os archs where entry: "entry = (os, archs)" by (cases entry)
  from Cons.prems entry obtain osvars where ov: "map_of os_base_vars os = Some osvars" by auto
  from Cons.prems have "fst ` set tbl \<subseteq> dom (map_of os_base_vars)" by simp
  then have ih: "\<And>s. generate_items e ver a tbl s = Done (write_all (map (dockerfile_of e ver tpl) (selected a tbl)) s)"
    by (rule Cons.IH)
  show ?case
    unfolding entry
    by (simp add: generate_archs_closed [OF assms(1) ov] ih selected_def write_all_append)
qed

lemma generate_archs_no_template:
  assumes "template_file e = None" and "map_of os_base_vars os = Some osvars"
  shows "generate_archs e ver a os ims s =
         (if filter (\<lambda>im. os \<in> set (opt_os a) \<and> arch im \<in> set (opt_arch a)) ims = [] then Done s
          else Raised (TemplateNotFound ''Dockerfile.template'') s)"
  using assms
  by (induction ims arbitrary: s) (simp_all add: generate_image_def)

lemma generate_items_no_template:
  assumes "template_file e = None" and "fst ` set tbl \<subseteq> dom (map_of os_base_vars)"
  shows "generate_items e ver a tbl s =
         (if selected a tbl = [] then Done s
          else Raised (TemplateNotFound ''Dockerfile.template'') s)"
  using assms(2)
proof (induction tbl arbitrary: s)
  case Nil
  show ?case by (simp add: selected_def)
next
  case (Cons entry tbl)
  obtain os archs where entry: "entry = (os, archs)" by (cases entry)
  from Cons.prems entry obtain osvars where ov: "map_of os_base_vars os = Some osvars" by auto
  from Cons.prems have "fst ` set tbl \<subseteq> dom (map_of os_base_vars)" by simp
  then have ih: "\<And>s. generate_items e ver a tbl s =
         (if selected a tbl = [] then Done s
          else Raised (TemplateNotFound ''Dockerfile.template'') s)"
    by (rule Cons.IH)
  show ?case
    unfolding entry
    by (simp add: generate_archs_no_template [OF assms(1) ov] ih selected_def)
qed

lemma images_keys: "fst ` set images \<subseteq> dom (map_of os_base_vars)"
  by (simp add: images_def os_base_vars_def)

section \<open>Facts about the build step\<close>

lemma foldl_print_raw_console:
  "console (foldl (\<lambda>st line. print_raw line st) s ls) = console s @ map Stdout ls"
  by (induction ls arbitrary: s) (simp_all add: print_raw_def)

lemma foldl_print_raw_invoked:
  "invoked (foldl (\<lambda>st line. print_raw line st) s ls) = invoked s"
  by (induction ls arbitrary: s) (simp_all add: print_raw_def)

lemma foldl_print_raw_written:
  "written (foldl (\<lambda>st line. print_raw line st) s ls) = written s"
  by (induction ls arbitrary: s) (simp_all add: print_raw_def)

lemma foldl_print_raw_files:
  "files (foldl (\<lambda>st line. print_raw line st) s ls) = files s"
  by (induction ls arbitrary: s) (simp_all add: print_raw_def)

lemma foldl_print_raw_st_images:
  "st_images (foldl (\<lambda>st line. print_raw line st) s ls) = st_images s"
  by (induction ls arbitrary: s) (simp_all add: print_raw_def)

lemmas foldl_print_raw =
  foldl_print_raw_console foldl_print_raw_invoked foldl_print_raw_written
  foldl_print_raw_files foldl_print_raw_st_images

lemma run_invoked:
  "invoked (run_and_stream_command_output e c a s) = invoked s @ [c]"
  by (simp add: run_and_stream_command_output_def Let_def print_def foldl_print_raw)

lemma run_frame:
  "written (run_and_stream_command_output e c a s) = written s"
  "files (run_and_stream_command_output e c a s) = files s"
  "st_images (run_and_stream_command_output e c a s) = st_images s"
  by (simp_all add: run_and_stream_command_output_def Let_def print_def foldl_print_raw)

lemma run_console:
  "console (run_and_stream_command_output e c a s) =
     console s @ [Stdout (''Running '' @ c @ nl)]
     @ (if opt_v a \<and> still_running e (length (invoked s))
        then map Stdout (fst (popen e (length (invoked s)) (split c))) else [])
     @ (if snd (popen e (length (invoked s)) (split c)) \<noteq> 0
        then [error_line, Stdout (''None'' @ nl)] else [])"
  by (simp add: run_and_stream_command_output_def Let_def print_def foldl_print_raw error_line_def)

lemma build_invoked:
  "invoked (build e ver ''pihole'' os ar a s) = invoked s @ commands_of ver a (os, ar)"
  by (simp add: build_def Let_def run_invoked print_def commands_of_def)

lemma build_frame:
  "written (build e ver repo os ar a s) = written s"
  "files (build e ver repo os ar a s) = files s"
  "st_images (build e ver repo os ar a s) = st_images s"
  by (simp_all add: build_def Let_def run_frame print_def)

lemma build_archs_invoked:
  "invoked (build_archs e ver a os ars s) =
     invoked s @ concat (map (\<lambda>ar. commands_of ver a (os, ar)) ars)"
  by (induction ars arbitrary: s) (simp_all add: build_invoked)

lemma build_archs_frame:
  "written (build_archs e ver a os ars s) = written s"
  "files (build_archs e ver a os ars s) = files s"
  "st_images (build_archs e ver a os ars s) = st_images s"
  by (induction ars arbitrary: s) (simp_all add: build_frame)

lemma build_oses_invoked:
  "invoked (build_oses e ver a oses s) =
     invoked s @ concat (map (commands_of ver a) (List.product oses (opt_arch a)))"
  by (induction oses arbitrary: s) (simp_all add: build_archs_invoked map_concat comp_def)

lemma build_oses_frame:
  "written (build_oses e ver a oses s) = written s"
  "files (build_oses e ver a oses s) = files s"
  "st_images (build_oses e ver a oses s) = st_images s"
  by (induction oses arbitrary: s) (simp_all add: build_archs_frame)

lemma build_dockerfiles_invoked:
  "invoked (build_dockerfiles e ver a s) =
     invoked s @ (if no_build a then []
                  else concat (map (commands_of ver a) (List.product (opt_os a) (opt_arch a))))"
  by (simp add: build_dockerfiles_def build_oses_invoked print_def)

lemma build_dockerfiles_frame:
  "written (build_dockerfiles e ver a s) = written s"
  "files (build_dockerfiles e ver a s) = files s"
  "st_images (build_dockerfiles e ver a s) = st_images s"
  by (simp_all add: build_dockerfiles_def build_oses_frame print_def)


lemma is_tag_build_command: "\<not> is_tag_command (build_command ver repo a os ar)"
  by (simp add: is_tag_command_def build_command_def time_prefix_def Let_def)

lemma is_tag_hub_tag_command: "is_tag_command (hub_tag_command ver repo a os ar)"
  by (simp add: is_tag_command_def hub_tag_command_def time_prefix_def)



lemma filter_tag_commands_of:
  "filter is_tag_command (commands_of ver a p) =
     (if truthy (opt_hub_tag a) then [hub_tag_command ver ''pihole'' a (fst p) (snd p)] else [])"
  by (simp add: commands_of_def is_tag_build_command is_tag_hub_tag_command)

lemma filter_concat_map:
  "filter P (concat (map f xs)) = concat (map (\<lambda>x. filter P (f x)) xs)"
  by (induction xs) simp_all

lemma concat_map_single: "concat (map (\<lambda>x. [g x]) xs) = map g xs"
  by (induction xs) simp_all


lemma filter_tag_all:
  "filter is_tag_command (concat (map (commands_of ver a) ps)) =
     (if truthy (opt_hub_tag a)
      then map (\<lambda>p. hub_tag_command ver ''pihole'' a (fst p) (snd p)) ps else [])"
  by (simp add: filter_concat_map filter_tag_commands_of concat_map_single)

section \<open>Facts about whole runs\<close>

lemma generate_dockerfiles_images:
  assumes "st_images s = images"
  shows "generate_dockerfiles e ver a s =
     (if no_generate a then Done (print '' ::: Skipping Dockerfile generation'' s)
      else case template_file e of
             None \<Rightarrow> (if selected a images = [] then Done s
                       else Raised (TemplateNotFound ''Dockerfile.template'') s)
           | Some tpl \<Rightarrow> Done (write_all (map (dockerfile_of e ver tpl) (selected a images)) s))"
  using assms
  by (simp add: generate_dockerfiles_def generate_items_closed generate_items_no_template
        images_keys split: option.splits)

lemma start_fields:
  "st_images (start e a) = images"
  "files (start e a) = initial_files e"
  "written (start e a) = []"
  "invoked (start e a) = []"
  by (simp_all add: start_def boot_def print_def Let_def)

lemma main_start:
  "main e ver a ((boot e)\<lparr>st_images := images\<rparr>) =
     (case generate_dockerfiles e ver a (start e a) of
        Done s2 \<Rightarrow> Done (build_dockerfiles e ver a s2)
      | Raised x s2 \<Rightarrow> Raised x s2)"
  by (simp add: main_def start_def Let_def)

lemma boot_fields:
  "files (boot e) = initial_files e"
  "written (boot e) = []"
  "invoked (boot e) = []"
  "console (boot e) = []"
  by (simp_all add: boot_def)

lemma program_start:
  "program e a =
     (case version_file e of
        None \<Rightarrow> uncaught (FileNotFoundError ''VERSION'') (boot e)
      | Some content \<Rightarrow>
          (case generate_dockerfiles e (version_of content) a (start e a) of
             Done s2 \<Rightarrow> (0, build_dockerfiles e (version_of content) a s2)
           | Raised x s2 \<Rightarrow> uncaught x s2))"
  by (simp add: program_def main_start split: option.splits result.splits)

lemma program_exit_code: "fst (program e a) = (if fails e a then 1 else 0)"
  by (simp add: program_start generate_dockerfiles_images start_fields fails_def
        uncaught_def split: option.splits)

lemma program_written: "written (snd (program e a)) = generated e a"
  by (simp add: program_start generate_dockerfiles_images start_fields generated_def
        uncaught_def build_dockerfiles_frame write_all_written print_def boot_fields
        split: option.splits)

lemma program_files: "files (snd (program e a)) = initial_files e ++ map_of (rev (generated e a))"
  by (simp add: program_start generate_dockerfiles_images start_fields generated_def
        uncaught_def build_dockerfiles_frame write_all_files print_def boot_fields
        split: option.splits)

lemma program_st_images:
  "version_file e \<noteq> None \<Longrightarrow> st_images (snd (program e a)) = images"
  by (auto simp: program_start generate_dockerfiles_images start_fields
        uncaught_def build_dockerfiles_frame write_all_st_images print_def
        split: option.splits)

lemma program_invoked:
  "invoked (snd (program e a)) =
     (case version_file e of
        None \<Rightarrow> []
      | Some content \<Rightarrow>
          if fails e a \<or> no_build a then []
          else concat (map (commands_of (version_of content) a)
                 (List.product (opt_os a) (opt_arch a))))"
  by (auto simp: program_start generate_dockerfiles_images start_fields fails_def
        uncaught_def build_dockerfiles_invoked write_all_invoked print_def boot_fields
        split: option.splits)


lemma reported_empty: "invoked s = [] \<Longrightarrow> reported e s"
  by (simp add: reported_def)

lemma reported_print: "reported e s \<Longrightarrow> reported e (print t s)"
  by (simp add: reported_def print_def returncode_def)

lemma reported_run:
  assumes "reported e s"
  shows "reported e (run_and_stream_command_output e c a s)"
  unfolding reported_def
proof (intro allI impI)
  fix i
  let ?s' = "run_and_stream_command_output e c a s"
  assume i: "i < length (invoked ?s')" and rc: "returncode e ?s' i \<noteq> 0"
  show "error_line \<in> set (console ?s')"
  proof (cases "i < length (invoked s)")
    case True
    then have "returncode e ?s' i = returncode e s i"
      by (simp add: returncode_def run_invoked nth_append)
    with rc assms True have "error_line \<in> set (console s)"
      by (simp add: reported_def)
    then show ?thesis by (simp add: run_console)
  next
    case False
    with i have "i = length (invoked s)" by (simp add: run_invoked)
    with rc have "snd (popen e (length (invoked s)) (split c)) \<noteq> 0"
      by (simp add: returncode_def run_invoked)
    then show ?thesis by (simp add: run_console)
  qed
qed

lemma reported_build: "reported e s \<Longrightarrow> reported e (build e ver repo os ar a s)"
  by (simp add: build_def Let_def reported_run reported_print)

lemma reported_build_archs: "reported e s \<Longrightarrow> reported e (build_archs e ver a os ars s)"
  by (induction ars arbitrary: s) (simp_all add: reported_build)

lemma reported_build_oses: "reported e s \<Longrightarrow> reported e (build_oses e ver a oses s)"
  by (induction oses arbitrary: s) (simp_all add: reported_build_archs)

lemma reported_build_dockerfiles: "reported e s \<Longrightarrow> reported e (build_dockerfiles e ver a s)"
  by (simp add: build_dockerfiles_def reported_build_oses reported_print)

lemma state_of_simps:
  "state_of (Done s) = s"
  "state_of (Raised x s) = s"
  by (simp_all add: state_of_def)

lemma generate_image_frame:
  "st_images (state_of (generate_image e ver a os im s)) = st_images s"
  "invoked (state_of (generate_image e ver a os im s)) = invoked s"
  "console (state_of (generate_image e ver a os im s)) = console s"
  by (simp_all add: generate_image_def state_of_simps write_file_def split: option.splits)

lemma generate_archs_frame:
  "st_images (state_of (generate_archs e ver a os ims s)) = st_images s
   \<and> invoked (state_of (generate_archs e ver a os ims s)) = invoked s
   \<and> console (state_of (generate_archs e ver a os ims s)) = console s"
proof (induction ims arbitrary: s)
  case Nil
  show ?case by (simp add: state_of_simps)
next
  case (Cons im ims)
  show ?case
  proof (cases "generate_image e ver a os im s")
    case (Done s')
    with generate_image_frame [of e ver a os im s] Cons [of s'] show ?thesis
      by (simp add: state_of_simps)
  next
    case (Raised x s')
    with generate_image_frame [of e ver a os im s] show ?thesis
      by (simp add: state_of_simps)
  qed
qed

lemma generate_items_frame:
  "st_images (state_of (generate_items e ver a tbl s)) = st_images s
   \<and> invoked (state_of (generate_items e ver a tbl s)) = invoked s
   \<and> console (state_of (generate_items e ver a tbl s)) = console s"
proof (induction tbl arbitrary: s)
  case Nil
  show ?case by (simp add: state_of_simps)
next
  case (Cons entry tbl)
  obtain os archs where entry: "entry = (os, archs)" by (cases entry)
  show ?case
  proof (cases "generate_archs e ver a os archs s")
    case (Done s')
    with generate_archs_frame [of e ver a os archs s] Cons [of s'] entry show ?thesis
      by (simp add: state_of_simps)
  next
    case (Raised x s')
    with generate_archs_frame [of e ver a os archs s] entry show ?thesis
      by (simp add: state_of_simps)
  qed
qed

lemma generate_dockerfiles_frame:
  "st_images (state_of (generate_dockerfiles e ver a s)) = st_images s"
  "invoked (state_of (generate_dockerfiles e ver a s)) = invoked s"
  using generate_items_frame [of e ver a "st_images s" s]
  by (simp_all add: generate_dockerfiles_def state_of_simps print_def)

lemma reported_program: "reported e (snd (program e a))"
proof (cases "version_file e")
  case None
  then show ?thesis
    by (simp add: program_start uncaught_def reported_def boot_fields)
next
  case (Some content)
  let ?g = "generate_dockerfiles e (version_of content) a (start e a)"
  have inv: "invoked (state_of ?g) = []"
    by (simp add: generate_dockerfiles_frame start_fields)
  show ?thesis
  proof (cases ?g)
    case (Done s2)
    with inv have "reported e s2" by (simp add: state_of_simps reported_empty)
    then have "reported e (build_dockerfiles e (version_of content) a s2)"
      by (rule reported_build_dockerfiles)
    with Some Done show ?thesis by (simp add: program_start)
  next
    case (Raised x s2)
    with inv have "invoked s2 = []" by (simp add: state_of_simps)
    with Some Raised show ?thesis
      by (simp add: program_start uncaught_def reported_def)
  qed
qed

section \<open>Facts about the version string and the concrete environment\<close>

lemma sublist_sep:
  assumes "x \<notin> set P"
  shows "sublist P (A @ x # B) \<longleftrightarrow> sublist P A \<or> sublist P B"
proof
  assume "sublist P (A @ x # B)"
  then have "sublist P A \<or> sublist P (x # B) \<or>
      (\<exists>xs1 xs2. P = xs1 @ xs2 \<and> suffix xs1 A \<and> prefix xs2 (x # B))"
    by (simp add: sublist_append)
  then show "sublist P A \<or> sublist P B"
  proof (elim disjE exE conjE)
    assume "sublist P A" then show ?thesis by simp
  next
    assume "sublist P (x # B)"
    then have "prefix P (x # B) \<or> sublist P B" by (simp add: sublist_Cons_right)
    then show ?thesis
    proof
      assume "prefix P (x # B)"
      with assms have "P = []" by (cases P) auto
      then show ?thesis by simp
    qed simp
  next
    fix xs1 xs2
    assume P: "P = xs1 @ xs2" and suf: "suffix xs1 A" and pre: "prefix xs2 (x # B)"
    from pre assms P have "xs2 = []" by (cases xs2) auto
    with P suf have "sublist P A" by (simp add: suffix_imp_sublist)
    then show ?thesis by simp
  qed
next
  assume "sublist P A \<or> sublist P B"
  then show "sublist P (A @ x # B)"
    by (auto simp: sublist_append sublist_Cons_right)
qed

lemma version_no_release_slash: "\<not> sublist ''release/'' (version_of content)"
  by (simp add: version_of_def replace_no_release_slash)

lemma repo_tag_no_release_slash:
  assumes "\<not> sublist ''release/'' os" and "\<not> sublist ''release/'' ar"
  shows "\<not> sublist ''release/'' (repo_tag ''pihole'' (version_of content) os ar)"
proof -
  have 1: "CHR '':'' \<notin> set ''release/''" and 2: "CHR ''_'' \<notin> set ''release/''" by simp_all
  have "repo_tag ''pihole'' (version_of content) os ar =
      ''pihole'' @ CHR '':'' # (version_of content @ CHR ''_'' # (os @ CHR ''_'' # ar))"
    by (simp add: repo_tag_def)
  then show ?thesis
    using assms version_no_release_slash [of content]
    by (simp only: sublist_sep [OF 1] sublist_sep [OF 2]) (simp add: sublist_code)
qed

lemma replace_example: "replace ''release/'' ''release-'' (strip raw_version0) = ''release-v4.0''"
  by (simp add: raw_version0_def strip_def isspace_def nl_def replace.simps)

lemma version_of_example: "version_of raw_version0 = ''release-v4.0''"
  by (simp add: version_of_def replace_example)

lemma env0_fields:
  "version_file env0 = Some raw_version0"
  "template_file env0 = Some ''FROM ''"
  "initial_files env0 = Map.empty"
  "render env0 = (\<lambda>tpl d. tpl @ show_dict d)"
  "popen env0 = (\<lambda>i argv. ([''out'' @ nl], if i = 1 then 2 else 0))"
  by (simp_all add: env0_def)

lemma default_args_fields:
  "opt_os default_args = [''alpine'', ''debian'']"
  "opt_hub_tag default_args = None"
  "opt_arch default_args = [''amd64'', ''armel'', ''armhf'', ''arm64'']"
  "\<not> opt_v default_args" "\<not> opt_t default_args" "\<not> no_build default_args"
  "\<not> no_generate default_args" "\<not> no_cache default_args"
  by (simp_all add: default_args_def)

lemma env0_runs: "\<not> fails env0 a"
  by (simp add: fails_def env0_fields)

section \<open>Further facts used by the properties\<close>

lemma set_selected:
  "set (selected a tbl) =
     {(os, im). \<exists>archs. (os, archs) \<in> set tbl \<and> im \<in> set archs
                 \<and> os \<in> set (opt_os a) \<and> arch im \<in> set (opt_arch a)}"
  by (auto simp: selected_def)

lemma fst_dockerfile_of: "fst (dockerfile_of e ver tpl p) = dockerfile_name (arch (snd p))"
  by (simp add: dockerfile_of_def)

lemma selected_default:
  "selected default_args images =
     [(''debian'', \<lparr>base = ''pihole/debian-base:latest'', arch = ''amd64'', s6arch = ''amd64''\<rparr>),
      (''debian'', \<lparr>base = ''multiarch/debian-debootstrap:armel-stretch-slim'', arch = ''armel'',
          s6arch = ''arm''\<rparr>),
      (''debian'', \<lparr>base = ''multiarch/debian-debootstrap:armhf-stretch-slim'', arch = ''armhf'',
          s6arch = ''arm''\<rparr>),
      (''debian'', \<lparr>base = ''multiarch/debian-debootstrap:arm64-stretch-slim'', arch = ''arm64'',
          s6arch = ''aarch64''\<rparr>),
      (''alpine'', \<lparr>base = ''alpine:edge'', arch = ''amd64'', s6arch = ''amd64''\<rparr>),
      (''alpine'', \<lparr>base = ''multiarch/alpine:arm64-edge'', arch = ''arm64'', s6arch = ''aarch64''\<rparr>)]"
  by (simp add: selected_def images_def default_args_fields)

lemma tagged_args_fields:
  "opt_os tagged_args = [''alpine'']"
  "opt_hub_tag tagged_args = Some ''me/pihole:dev''"
  "opt_arch tagged_args = [''arm64'']"
  "\<not> opt_v tagged_args" "\<not> opt_t tagged_args" "\<not> no_build tagged_args"
  "\<not> no_generate tagged_args" "\<not> no_cache tagged_args"
  by (simp_all add: tagged_args_def default_args_def)

lemma fails_popen: "fails (e\<lparr>popen := p\<rparr>) a = fails e a"
  by (simp add: fails_def)





lemma map_of_rev_last:
  assumes "n \<notin> fst ` set ys"
  shows "map_of (rev (xs @ (n, c) # ys)) n = Some c"
proof -
  from assms have "map_of (rev ys) n = None"
    by (simp add: map_of_eq_None_iff)
  then show ?thesis
    by (simp add: map_add_def)
qed

lemma generated_cong:
  assumes "map_option version_of (version_file e1) = map_option version_of (version_file e2)"
    and "template_file e1 = template_file e2" and "render e1 = render e2"
    and "opt_os a1 = opt_os a2" and "opt_arch a1 = opt_arch a2"
    and "no_generate a1 = no_generate a2"
  shows "generated e1 a1 = generated e2 a2"
proof -
  have sel: "selected a1 images = selected a2 images"
    using assms(4,5) by (simp add: selected_def)
  have dk: "\<And>ver tpl. dockerfile_of e1 ver tpl = dockerfile_of e2 ver tpl"
    using assms(3) by (simp add: dockerfile_of_def fun_eq_iff)
  show ?thesis
    using assms(1,2,6)
    by (cases "version_file e1"; cases "version_file e2")
       (simp_all add: generated_def sel dk split: option.splits)
qed

lemma env1_fields:
  "version_file env1 = Some ''  release/v4.0''"
  "template_file env1 = Some ''FROM ''"
  "render env1 = (\<lambda>tpl d. tpl @ show_dict d)"
  by (simp_all add: env1_def)

lemma version_of_example1: "version_of ''  release/v4.0'' = ''release-v4.0''"
  by (simp add: version_of_def strip_def isspace_def replace.simps)

section \<open>Facts about the program with the library calls that can raise\<close>





























section \<open>The properties\<close>

text \<open>
  C1, as amended.  In a run with the VERSION file and the template present and generation
  not skipped, the set of generated file names is the image, under
  \<open>(OS, record) \<mapsto> 'Dockerfile_' + arch\<close>, of the pairs of the configuration table
  restricted to the selected OS list and architecture list.  The name is made from the
  architecture alone, so pairs that share an architecture share a name.
\<close>

theorem C1_generated_names:
  assumes "version_file e = Some content" and "template_file e = Some tpl"
    and "\<not> no_generate a"
  shows "fst ` set (written (snd (program e a))) =
           (\<lambda>p. dockerfile_name (arch (snd p))) ` set (selected a images)
         \<and> set (selected a images) =
           {(os, im). \<exists>archs. (os, archs) \<in> set images \<and> im \<in> set archs
                       \<and> os \<in> set (opt_os a) \<and> arch im \<in> set (opt_arch a)}"
  using assms
  by (simp add: program_written generated_def set_selected [symmetric] image_image
        fst_dockerfile_of)

text \<open>An instance of C1, as amended: with the default selection the run generates four names.\<close>

theorem C1_generated_names_witness:
  "version_file env0 = Some raw_version0 \<and> template_file env0 = Some ''FROM ''
   \<and> \<not> no_generate default_args
   \<and> fst ` set (written (snd (program env0 default_args))) =
       {''Dockerfile_amd64'', ''Dockerfile_armel'', ''Dockerfile_armhf'', ''Dockerfile_arm64''}"
  using C1_generated_names [of env0 raw_version0 "''FROM ''" default_args]
  by (auto simp: env0_fields default_args_fields selected_default dockerfile_name_def)

text \<open>
  C1 as stated fails: with the default selection the restricted table has six
  (OS, architecture) pairs and the run generates four file names, so the names do not
  correspond one to one to the pairs.
\<close>

theorem C1_names_not_pairs:
  "card (fst ` set (written (snd (program env0 default_args)))) = 4
   \<and> card (set (selected default_args images)) = 6"
  by (simp add: program_written generated_def env0_fields default_args_fields selected_default
        fst_dockerfile_of dockerfile_name_def card_insert_if)



text \<open>
  C3.  One call of \<open>build\<close> starts a tag command exactly when the command line gives a
  nonempty hub tag, and then exactly one; without \<open>--hub_tag\<close> a run starts no tag
  command, and with a hub tag it starts one per built pair.
\<close>

theorem C3_tag_iff_hub_tag:
  "filter is_tag_command (drop (length (invoked s)) (invoked (build e ver ''pihole'' os ar a s))) =
     (case opt_hub_tag a of
        None \<Rightarrow> []
      | Some t \<Rightarrow>
          if t = [] then []
          else [time_prefix a @ ''docker tag '' @ repo_tag ''pihole'' ver os ar @ '' '' @ t])
   \<and> (opt_hub_tag a = None \<longrightarrow> filter is_tag_command (invoked (snd (program e a))) = [])
   \<and> (opt_hub_tag a = Some t \<and> t \<noteq> [] \<and> \<not> no_build a \<and> version_file e = Some content
        \<and> fst (program e a) = 0 \<longrightarrow>
        filter is_tag_command (invoked (snd (program e a))) =
          map (\<lambda>p. time_prefix a @ ''docker tag ''
                     @ repo_tag ''pihole'' (version_of content) (fst p) (snd p) @ '' '' @ t)
            (List.product (opt_os a) (opt_arch a)))"
  by (simp add: build_invoked program_invoked program_exit_code filter_tag_all
        filter_tag_commands_of truthy_def hub_tag_command_def split: if_splits option.splits)

text \<open>An instance of C3 on the concrete environment.\<close>

theorem C3_tag_iff_hub_tag_witness:
  "opt_hub_tag default_args = None
   \<and> filter is_tag_command (invoked (snd (program env0 default_args))) = []
   \<and> opt_hub_tag tagged_args = Some ''me/pihole:dev'' \<and> ''me/pihole:dev'' \<noteq> []
   \<and> \<not> no_build tagged_args \<and> version_file env0 = Some raw_version0
   \<and> fst (program env0 tagged_args) = 0
   \<and> filter is_tag_command (invoked (snd (program env0 tagged_args))) =
        [''docker tag pihole:release-v4.0_alpine_arm64 me/pihole:dev'']"
  using C3_tag_iff_hub_tag [of "boot env0" env0 "''release-v4.0''" "''alpine''" "''arm64''"
      default_args "''me/pihole:dev''" raw_version0]
    C3_tag_iff_hub_tag [of "boot env0" env0 "''release-v4.0''" "''alpine''" "''arm64''"
      tagged_args "''me/pihole:dev''" raw_version0]
  by (simp add: env0_fields default_args_fields tagged_args_fields program_exit_code env0_runs
        version_of_example time_prefix_def repo_tag_def)

text \<open>
  C4.  With \<open>--no-generate\<close> the generation phase writes no file, and with
  \<open>--no-build\<close> the build phase starts no command.
\<close>

theorem C4_skip_flags:
  "(no_generate a \<longrightarrow>
      written (state_of (generate_dockerfiles e ver a s)) = written s
      \<and> files (state_of (generate_dockerfiles e ver a s)) = files s
      \<and> written (snd (program e a)) = []
      \<and> files (snd (program e a)) = initial_files e)
   \<and> (no_build a \<longrightarrow>
      invoked (build_dockerfiles e ver a s) = invoked s
      \<and> invoked (snd (program e a)) = [])"
  by (simp add: generate_dockerfiles_def state_of_simps print_def program_written program_files
        generated_def build_dockerfiles_invoked program_invoked split: option.splits)

text \<open>An instance of C4 on the concrete environment.\<close>

theorem C4_skip_flags_witness:
  "no_generate (default_args\<lparr>no_generate := True\<rparr>)
   \<and> written (snd (program env0 (default_args\<lparr>no_generate := True\<rparr>))) = []
   \<and> files (snd (program env0 (default_args\<lparr>no_generate := True\<rparr>))) = Map.empty
   \<and> no_build (default_args\<lparr>no_build := True\<rparr>)
   \<and> invoked (snd (program env0 (default_args\<lparr>no_build := True\<rparr>))) = []"
  using C4_skip_flags [of "default_args\<lparr>no_generate := True\<rparr>" env0 "''release-v4.0''" "boot env0"]
    C4_skip_flags [of "default_args\<lparr>no_build := True\<rparr>" env0 "''release-v4.0''" "boot env0"]
  by (simp add: env0_fields)

text \<open>
  C5.  A command that returns a nonzero code is reported on the console by the line
  \<open>"     ::: Error running"\<close>, in \<open>run_and_stream_command_output\<close> and for every command
  of a run; the exit status of the program does not depend on the return codes, and is
  nonzero only for a missing VERSION file or a missing template.
\<close>

theorem C5_failure_reported_not_propagated:
  "(snd (popen e (length (invoked s)) (split c)) \<noteq> 0 \<longrightarrow>
      console (run_and_stream_command_output e c a s) =
        console s @ [Stdout (''Running '' @ c @ nl)]
        @ (if opt_v a \<and> still_running e (length (invoked s))
           then map Stdout (fst (popen e (length (invoked s)) (split c))) else [])
        @ [Stdout (''     ::: Error running'' @ nl), Stdout (''None'' @ nl)])
   \<and> (\<forall>i<length (invoked (snd (program e a))).
        snd (popen e i (split (invoked (snd (program e a)) ! i))) \<noteq> 0 \<longrightarrow>
        Stdout (''     ::: Error running'' @ nl) \<in> set (console (snd (program e a))))
   \<and> fst (program (e\<lparr>popen := p\<rparr>) a) = fst (program e a)
   \<and> (fst (program e a) = 0 \<longleftrightarrow>
        \<not> (version_file e = None
           \<or> (\<not> no_generate a \<and> template_file e = None \<and> selected a images \<noteq> [])))"
  using reported_program [of e a]
  by (simp add: run_console error_line_def reported_def returncode_def program_exit_code
        fails_popen) (simp add: fails_def)

text \<open>An instance of C5 on the concrete environment.\<close>

theorem C5_failure_reported_not_propagated_witness:
  "snd (popen env0 (length (invoked ((boot env0)\<lparr>invoked := [''docker build .'']\<rparr>)))
          (split ''docker tag a b'')) \<noteq> 0
   \<and> console (run_and_stream_command_output env0 ''docker tag a b'' default_args
                ((boot env0)\<lparr>invoked := [''docker build .'']\<rparr>)) =
        [Stdout (''Running docker tag a b'' @ nl), Stdout (''     ::: Error running'' @ nl),
         Stdout (''None'' @ nl)]
   \<and> 1 < length (invoked (snd (program env0 default_args)))
   \<and> snd (popen env0 1 (split (invoked (snd (program env0 default_args)) ! 1))) \<noteq> 0
   \<and> Stdout (''     ::: Error running'' @ nl) \<in> set (console (snd (program env0 default_args)))
   \<and> fst (program env0 default_args) = 0"
proof -
  note inst = C5_failure_reported_not_propagated
    [of env0 "(boot env0)\<lparr>invoked := [''docker build .'']\<rparr>" "''docker tag a b''"
        default_args "popen env0"]
  have rc: "\<And>i argv. i = 1 \<Longrightarrow> snd (popen env0 i argv) \<noteq> 0"
    by (simp add: env0_fields)
  have len: "1 < length (invoked (snd (program env0 default_args)))"
    by (simp add: program_invoked env0_fields env0_runs default_args_fields commands_of_def
          truthy_def)
  from inst have "\<forall>i<length (invoked (snd (program env0 default_args))).
        snd (popen env0 i (split (invoked (snd (program env0 default_args)) ! i))) \<noteq> 0 \<longrightarrow>
        Stdout (''     ::: Error running'' @ nl) \<in> set (console (snd (program env0 default_args)))"
    by (rule conjunct2 [THEN conjunct1])
  with len rc have rep:
    "Stdout (''     ::: Error running'' @ nl) \<in> set (console (snd (program env0 default_args)))"
    by blast
  from inst have "console (run_and_stream_command_output env0 ''docker tag a b'' default_args
                ((boot env0)\<lparr>invoked := [''docker build .'']\<rparr>)) =
        [Stdout (''Running docker tag a b'' @ nl), Stdout (''     ::: Error running'' @ nl),
         Stdout (''None'' @ nl)]"
    by (simp add: rc boot_fields default_args_fields)
  with rep len rc show ?thesis
    by (simp add: program_exit_code env0_runs)
qed




text \<open>
  C7.  Two runs with the same version string, the same template, the same renderer and
  the same \<open>--os\<close>, \<open>--arch\<close> and \<open>--no-generate\<close> values write the same files with the
  same contents, whatever else differs (other options, processes, earlier files).
\<close>

theorem C7_rendering_deterministic:
  assumes "map_option version_of (version_file e1) = map_option version_of (version_file e2)"
    and "template_file e1 = template_file e2" and "render e1 = render e2"
    and "opt_os a1 = opt_os a2" and "opt_arch a1 = opt_arch a2"
    and "no_generate a1 = no_generate a2"
  shows "written (snd (program e1 a1)) = written (snd (program e2 a2))
    \<and> (\<forall>n \<in> fst ` set (written (snd (program e1 a1))).
          files (snd (program e1 a1)) n = files (snd (program e2 a2)) n)"
proof -
  have g: "generated e1 a1 = generated e2 a2"
    using assms by (rule generated_cong)
  have "\<And>n m. n \<in> fst ` set (generated e2 a2) \<Longrightarrow>
      (m ++ map_of (rev (generated e2 a2))) n = map_of (rev (generated e2 a2)) n"
    by (rule map_add_dom_app_simps) (simp add: dom_map_of_conv_image_fst)
  then show ?thesis
    by (simp add: program_written program_files g)
qed

text \<open>An instance of C7 on the concrete environment.\<close>

theorem C7_rendering_deterministic_witness:
  "map_option version_of (version_file env0) = map_option version_of (version_file env1)
   \<and> template_file env0 = template_file env1 \<and> render env0 = render env1
   \<and> opt_os default_args = opt_os (default_args\<lparr>opt_v := True, no_build := True\<rparr>)
   \<and> opt_arch default_args = opt_arch (default_args\<lparr>opt_v := True, no_build := True\<rparr>)
   \<and> no_generate default_args = no_generate (default_args\<lparr>opt_v := True, no_build := True\<rparr>)
   \<and> written (snd (program env0 default_args)) =
       written (snd (program env1 (default_args\<lparr>opt_v := True, no_build := True\<rparr>)))
   \<and> files (snd (program env0 default_args)) ''Dockerfile_amd64'' =
       files (snd (program env1 (default_args\<lparr>opt_v := True, no_build := True\<rparr>)))
         ''Dockerfile_amd64''"
proof -
  have hyps:
    "map_option version_of (version_file env0) = map_option version_of (version_file env1)"
    "template_file env0 = template_file env1" "render env0 = render env1"
    "opt_os default_args = opt_os (default_args\<lparr>opt_v := True, no_build := True\<rparr>)"
    "opt_arch default_args = opt_arch (default_args\<lparr>opt_v := True, no_build := True\<rparr>)"
    "no_generate default_args = no_generate (default_args\<lparr>opt_v := True, no_build := True\<rparr>)"
    by (simp_all add: env0_fields env1_fields version_of_example version_of_example1)
  note inst = C7_rendering_deterministic [OF hyps]
  have "''Dockerfile_amd64'' \<in> fst ` set (written (snd (program env0 default_args)))"
    by (simp add: program_written generated_def env0_fields default_args_fields
          selected_default fst_dockerfile_of dockerfile_name_def image_image)
  with inst hyps show ?thesis by blast
qed

text \<open>
  C8.  The configuration table bound at the start of the program is left unchanged by
  generation, build, tagging and command execution, and is the table \<open>images\<close> at the
  end of every run that has read the VERSION file.
\<close>

theorem C8_images_unchanged:
  "st_images (state_of (generate_dockerfiles e ver a s)) = st_images s
   \<and> st_images (build_dockerfiles e ver a s) = st_images s
   \<and> st_images (build e ver repo os ar a s) = st_images s
   \<and> st_images (run_and_stream_command_output e c a s) = st_images s
   \<and> (version_file e \<noteq> None \<longrightarrow> st_images (snd (program e a)) = images)"
  by (simp add: generate_dockerfiles_frame build_dockerfiles_frame build_frame run_frame
        program_st_images)

text \<open>An instance of C8 on the concrete environment.\<close>

theorem C8_images_unchanged_witness:
  "version_file env0 \<noteq> None \<and> st_images (snd (program env0 default_args)) = images
   \<and> st_images (build_dockerfiles env0 ''release-v4.0'' default_args
        ((boot env0)\<lparr>st_images := images\<rparr>)) = images"
  using C8_images_unchanged [of env0 "''release-v4.0''" default_args
      "(boot env0)\<lparr>st_images := images\<rparr>" "''pihole''" "''alpine''" "''amd64''" "''docker''"]
  by (simp add: env0_fields)

text \<open>
  C9.  The generated file name is \<open>'Dockerfile_'\<close> followed by the architecture of the
  record.  When two selected pairs have the same architecture, both are written to that
  one file, and the file ends with the content of the pair processed last.
\<close>

theorem C9_same_arch_overwrites:
  assumes "version_file e = Some content" and "template_file e = Some tpl"
    and "\<not> no_generate a"
    and "selected a images = pre @ p2 # post" and "p1 \<in> set pre"
    and "arch (snd p1) = arch (snd p2)"
    and "\<forall>p \<in> set post. arch (snd p) \<noteq> arch (snd p2)"
  shows "fst (dockerfile_of e (version_of content) tpl p1) = ''Dockerfile_'' @ arch (snd p2)
    \<and> fst (dockerfile_of e (version_of content) tpl p2) = ''Dockerfile_'' @ arch (snd p2)
    \<and> dockerfile_of e (version_of content) tpl p1 \<in> set (written (snd (program e a)))
    \<and> dockerfile_of e (version_of content) tpl p2 \<in> set (written (snd (program e a)))
    \<and> files (snd (program e a)) (''Dockerfile_'' @ arch (snd p2)) =
        Some (snd (dockerfile_of e (version_of content) tpl p2))"
proof -
  let ?f = "dockerfile_of e (version_of content) tpl"
  have gen: "generated e a = map ?f pre @ (dockerfile_name (arch (snd p2)), snd (?f p2)) # map ?f post"
    using assms(1-4) by (simp add: generated_def dockerfile_of_def)
  have "dockerfile_name (arch (snd p2)) \<notin> fst ` set (map ?f post)"
    using assms(7) by (auto simp: fst_dockerfile_of dockerfile_name_def)
  then have "map_of (rev (generated e a)) (dockerfile_name (arch (snd p2))) = Some (snd (?f p2))"
    unfolding gen by (rule map_of_rev_last)
  then have fl: "files (snd (program e a)) (dockerfile_name (arch (snd p2))) = Some (snd (?f p2))"
    by (simp add: program_files map_add_def)
  have w: "set (written (snd (program e a))) = ?f ` set (pre @ p2 # post)"
    using assms(1-4) by (simp add: program_written generated_def image_Un)
  from assms(5) have "?f p1 \<in> set (written (snd (program e a)))" and
      "?f p2 \<in> set (written (snd (program e a)))"
    unfolding w by simp_all
  with fl assms(6) show ?thesis
    by (simp add: fst_dockerfile_of dockerfile_name_def)
qed

text \<open>An instance of C9 on the concrete environment.\<close>

theorem C9_same_arch_overwrites_witness:
  "version_file env0 = Some raw_version0 \<and> template_file env0 = Some ''FROM ''
   \<and> \<not> no_generate default_args
   \<and> selected default_args images =
       [(''debian'', \<lparr>base = ''pihole/debian-base:latest'', arch = ''amd64'', s6arch = ''amd64''\<rparr>),
        (''debian'', \<lparr>base = ''multiarch/debian-debootstrap:armel-stretch-slim'',
           arch = ''armel'', s6arch = ''arm''\<rparr>),
        (''debian'', \<lparr>base = ''multiarch/debian-debootstrap:armhf-stretch-slim'',
           arch = ''armhf'', s6arch = ''arm''\<rparr>),
        (''debian'', \<lparr>base = ''multiarch/debian-debootstrap:arm64-stretch-slim'',
           arch = ''arm64'', s6arch = ''aarch64''\<rparr>)]
       @ (''alpine'', \<lparr>base = ''alpine:edge'', arch = ''amd64'', s6arch = ''amd64''\<rparr>)
       # [(''alpine'', \<lparr>base = ''multiarch/alpine:arm64-edge'', arch = ''arm64'',
             s6arch = ''aarch64''\<rparr>)]
   \<and> files (snd (program env0 default_args)) ''Dockerfile_amd64'' =
       Some (''FROM version=release-v4.0;os=alpine;name=pihole/pihole;''
             @ ''maintainer=adam@diginc.us;s6_version=v1.22.1.0;''
             @ ''php_env_config=/etc/php5/fpm.d/envs.conf;''
             @ ''php_error_log=/var/log/nginx/error.log;''
             @ ''base=alpine:edge;arch=amd64;s6arch=amd64;'')"
  using C9_same_arch_overwrites [of env0 raw_version0 "''FROM ''" default_args
      "[(''debian'', \<lparr>base = ''pihole/debian-base:latest'', arch = ''amd64'', s6arch = ''amd64''\<rparr>),
        (''debian'', \<lparr>base = ''multiarch/debian-debootstrap:armel-stretch-slim'',
           arch = ''armel'', s6arch = ''arm''\<rparr>),
        (''debian'', \<lparr>base = ''multiarch/debian-debootstrap:armhf-stretch-slim'',
           arch = ''armhf'', s6arch = ''arm''\<rparr>),
        (''debian'', \<lparr>base = ''multiarch/debian-debootstrap:arm64-stretch-slim'',
           arch = ''arm64'', s6arch = ''aarch64''\<rparr>)]"
      "(''alpine'', \<lparr>base = ''alpine:edge'', arch = ''amd64'', s6arch = ''amd64''\<rparr>)"
      "[(''alpine'', \<lparr>base = ''multiarch/alpine:arm64-edge'', arch = ''arm64'',
             s6arch = ''aarch64''\<rparr>)]"
      "(''debian'', \<lparr>base = ''pihole/debian-base:latest'', arch = ''amd64'', s6arch = ''amd64''\<rparr>)"]
  by (simp add: env0_fields default_args_fields selected_default version_of_example
        dockerfile_of_def merged_data_def dict_def base_vars_def os_base_vars_def
        image_items_def show_dict_def)

text \<open>
  C10. The version string used in image tags and in the rendered templates is the content
  of the VERSION file with surrounding whitespace stripped and every \<open>release/\<close> replaced
  by \<open>release-\<close>.  The result never contains \<open>release/\<close>, so no image tag whose OS and
  architecture parts are free of it contains \<open>release/\<close>; the commands of a run and the
  files it writes are built from this version string.
\<close>

theorem C10_version_string:
  "version_of content = replace ''release/'' ''release-'' (strip content)
   \<and> \<not> sublist ''release/'' (version_of content)
   \<and> (\<not> sublist ''release/'' os \<and> \<not> sublist ''release/'' ar \<longrightarrow>
        \<not> sublist ''release/'' (repo_tag ''pihole'' (version_of content) os ar))
   \<and> (version_file e = Some content \<and> fst (program e a) = 0 \<and> \<not> no_build a \<longrightarrow>
        invoked (snd (program e a)) =
          concat (map (commands_of (version_of content) a)
                    (List.product (opt_os a) (opt_arch a))))
   \<and> (version_file e = Some content \<and> template_file e = Some tpl \<and> \<not> no_generate a \<longrightarrow>
        written (snd (program e a)) =
          map (dockerfile_of e (version_of content) tpl) (selected a images))"
proof (intro conjI impI)
  show "version_of content = replace ''release/'' ''release-'' (strip content)"
    by (simp add: version_of_def)
  show "\<not> sublist ''release/'' (version_of content)"
    by (rule version_no_release_slash)
next
  assume "\<not> sublist ''release/'' os \<and> \<not> sublist ''release/'' ar"
  then show "\<not> sublist ''release/'' (repo_tag ''pihole'' (version_of content) os ar)"
    by (simp add: repo_tag_no_release_slash)
next
  assume "version_file e = Some content \<and> fst (program e a) = 0 \<and> \<not> no_build a"
  then show "invoked (snd (program e a)) =
      concat (map (commands_of (version_of content) a) (List.product (opt_os a) (opt_arch a)))"
    by (simp add: program_invoked program_exit_code split: if_splits)
next
  assume "version_file e = Some content \<and> template_file e = Some tpl \<and> \<not> no_generate a"
  then show "written (snd (program e a)) =
      map (dockerfile_of e (version_of content) tpl) (selected a images)"
    by (simp add: program_written generated_def)
qed

text \<open>An instance of C10 on the concrete environment.\<close>

theorem C10_version_string_witness:
  "version_of raw_version0 = ''release-v4.0''
   \<and> \<not> sublist ''release/'' ''alpine'' \<and> \<not> sublist ''release/'' ''amd64''
   \<and> \<not> sublist ''release/'' (repo_tag ''pihole'' ''release-v4.0'' ''alpine'' ''amd64'')
   \<and> version_file env0 = Some raw_version0 \<and> fst (program env0 default_args) = 0
   \<and> \<not> no_build default_args
   \<and> invoked (snd (program env0 default_args)) =
        concat (map (commands_of ''release-v4.0'' default_args)
                  (List.product (opt_os default_args) (opt_arch default_args)))
   \<and> template_file env0 = Some ''FROM '' \<and> \<not> no_generate default_args
   \<and> written (snd (program env0 default_args)) =
        map (dockerfile_of env0 ''release-v4.0'' ''FROM '') (selected default_args images)"
  using C10_version_string [of raw_version0 "''alpine''" "''amd64''" env0 default_args
      "''FROM ''"]
  by (simp add: version_of_example replace_example env0_fields default_args_fields program_exit_code env0_runs
        sublist_code)

end
